theory Spec2Isabelle
  imports Complex_Main "HOL-Library.AList" "HOL-Library.Log_Nat"
begin

section \<open>Python values read by \<^verbatim>\<open>app.py\<close>\<close>

text \<open>
  The program is one Python module, \<^verbatim>\<open>src/app.py\<close>. It reads JSON documents of a remote
  leaderboard and computes a percentile curve. A function of the module keeps its name
  here, without the leading underscore; a loop or an expression of the module that is a
  function of its own here is introduced with the Python text it translates. Python
  exceptions are values: a function that can raise returns \<open>py_error + 'a\<close>, with \<open>Inl\<close>
  for the exception. \<open>TransportError\<close> stands for the exceptions of the HTTP request.

  Numbers: Python integers are unbounded, hence \<open>int\<close>. Python floats are modelled by
  \<open>real\<close>: rounding of IEEE doubles is not part of the model, and neither are the
  values \<^verbatim>\<open>NaN\<close> and \<^verbatim>\<open>Infinity\<close>. Strings are \<open>char list\<close>: a \<open>char\<close> is a character with a
  code point below 256, and characters beyond that range are not part of the model.
  The limit that recent Python versions put on the number of digits \<^verbatim>\<open>int\<close> converts is
  not modelled either.
\<close>

datatype py_error =
  ValueError | ZeroDivisionError | TypeError | AttributeError | IndexError | KeyError
  | TransportError

datatype json =
  JNull | JBool bool | JInt int | JFloat real | JStr string | JList "json list"
  | JDict "(string \<times> json) list"

text \<open>Truthiness, as \<^verbatim>\<open>if x\<close>, \<^verbatim>\<open>not x\<close> and \<^verbatim>\<open>x or y\<close> read it.\<close>

fun truthy :: "json \<Rightarrow> bool" where
  "truthy JNull = False"
| "truthy (JBool b) = b"
| "truthy (JInt i) = (i \<noteq> 0)"
| "truthy (JFloat x) = (x \<noteq> 0)"
| "truthy (JStr s) = (s \<noteq> [])"
| "truthy (JList xs) = (xs \<noteq> [])"
| "truthy (JDict kvs) = (kvs \<noteq> [])"

definition py_or :: "json \<Rightarrow> json \<Rightarrow> json" where
  "py_or a b = (if truthy a then a else b)"

text \<open>
  \<^verbatim>\<open>d.get(k)\<close> and \<^verbatim>\<open>d.get(k, default)\<close>. Only a dict has the method; on any other
  value the attribute lookup raises AttributeError. A \<open>JDict\<close> lists the items of the
  dict in insertion order and is read with \<open>map_of\<close>.
\<close>

fun dict_get_default :: "json \<Rightarrow> string \<Rightarrow> json \<Rightarrow> py_error + json" where
  "dict_get_default (JDict kvs) k d = Inr (case map_of kvs k of None \<Rightarrow> d | Some v \<Rightarrow> v)"
| "dict_get_default _ k d = Inl AttributeError"

definition dict_get :: "json \<Rightarrow> string \<Rightarrow> py_error + json" where
  "dict_get j k = dict_get_default j k JNull"

text \<open>\<^verbatim>\<open>x[0]\<close>: the first element of a list or string; a dict has no key \<^verbatim>\<open>0\<close>.\<close>

fun py_index0 :: "json \<Rightarrow> py_error + json" where
  "py_index0 (JList []) = Inl IndexError"
| "py_index0 (JList (x # xs)) = Inr x"
| "py_index0 (JStr []) = Inl IndexError"
| "py_index0 (JStr (c # cs)) = Inr (JStr [c])"
| "py_index0 (JDict kvs) = Inl KeyError"
| "py_index0 _ = Inl TypeError"

text \<open>\<^verbatim>\<open>for row in rows\<close>: the elements the loop visits, or TypeError.\<close>

fun py_iter :: "json \<Rightarrow> py_error + json list" where
  "py_iter (JList xs) = Inr xs"
| "py_iter (JStr s) = Inr (map (\<lambda>c. JStr [c]) s)"
| "py_iter (JDict kvs) = Inr (map JStr (remdups (map fst kvs)))"
| "py_iter _ = Inl TypeError"

subsection \<open>Characters, \<^verbatim>\<open>int(...)\<close> and \<^verbatim>\<open>str(...)\<close>\<close>

definition is_digit :: "char \<Rightarrow> bool" where
  "is_digit c = (48 \<le> (of_char c :: nat) \<and> (of_char c :: nat) \<le> 57)"

text \<open>
  The whitespace of \<^verbatim>\<open>\s\<close> and of \<^verbatim>\<open>int\<close> below code point 256: tab, LF, VT, FF, CR, FS,
  GS, RS, US, space, NEL and the no-break space.
\<close>

definition is_space :: "char \<Rightarrow> bool" where
  "is_space c = ((of_char c :: nat) \<in> {9, 10, 11, 12, 13, 28, 29, 30, 31, 32, 133, 160})"

definition digit_val :: "char \<Rightarrow> int" where
  "digit_val c = int (of_char c) - 48"

definition int_of_digits :: "string \<Rightarrow> int" where
  "int_of_digits ds = foldl (\<lambda>a c. 10 * a + digit_val c) 0 ds"

text \<open>
  The digits of a decimal literal as \<^verbatim>\<open>int\<close> accepts it: digits, with single
  underscores between digits.
\<close>

fun literal_digits :: "string \<Rightarrow> string option" where
  "literal_digits [] = None"
| "literal_digits [c] = (if is_digit c then Some [c] else None)"
| "literal_digits (c # d # cs) =
     (if is_digit c
      then (if d = CHR ''_'' then map_option (Cons c) (literal_digits cs)
            else map_option (Cons c) (literal_digits (d # cs)))
      else None)"

definition strip :: "string \<Rightarrow> string" where
  "strip s = rev (dropWhile is_space (rev (dropWhile is_space s)))"

definition int_of_str :: "string \<Rightarrow> py_error + int" where
  "int_of_str s =
     (let t = strip s;
          sign = (if t \<noteq> [] \<and> hd t = CHR ''-'' then - 1 else 1 :: int);
          body = (if t \<noteq> [] \<and> (hd t = CHR ''-'' \<or> hd t = CHR ''+'') then tl t else t)
      in case literal_digits body of
           None \<Rightarrow> Inl ValueError
         | Some ds \<Rightarrow> Inr (sign * int_of_digits ds))"

text \<open>\<^verbatim>\<open>int(x)\<close> for a JSON value \<open>x\<close>; a float is truncated towards zero.\<close>

fun py_int :: "json \<Rightarrow> py_error + int" where
  "py_int (JInt i) = Inr i"
| "py_int (JBool b) = Inr (if b then 1 else 0)"
| "py_int (JFloat x) = Inr (if 0 \<le> x then \<lfloor>x\<rfloor> else \<lceil>x\<rceil>)"
| "py_int (JStr s) = int_of_str s"
| "py_int _ = Inl TypeError"

function str_of_nat :: "nat \<Rightarrow> string" where
  "str_of_nat n =
     (if n < 10 then [char_of (48 + n)]
      else str_of_nat (n div 10) @ [char_of (48 + n mod 10)])"
  by pat_completeness auto
termination
  by (relation "measure id") auto

declare str_of_nat.simps [simp del]

text \<open>\<^verbatim>\<open>str(i)\<close> for an integer.\<close>

definition str_of_int :: "int \<Rightarrow> string" where
  "str_of_int i = (if i < 0 then CHR ''-'' # str_of_nat (nat (- i)) else str_of_nat (nat i))"

text \<open>
  \<^verbatim>\<open>str(x) == "1"\<close>: of the JSON values only the string \<^verbatim>\<open>"1"\<close> and the integer \<^verbatim>\<open>1\<close>
  print as \<^verbatim>\<open>1\<close> (\<^verbatim>\<open>str(True)\<close> is \<^verbatim>\<open>True\<close>, \<^verbatim>\<open>str(1.0)\<close> is \<^verbatim>\<open>1.0\<close>, a list prints with
  brackets, a dict with braces, \<^verbatim>\<open>None\<close> as \<^verbatim>\<open>None\<close>).
\<close>

fun str_is_1 :: "json \<Rightarrow> bool" where
  "str_is_1 (JStr s) = (s = ''1'')"
| "str_is_1 (JInt i) = (str_of_int i = ''1'')"
| "str_is_1 _ = False"

section \<open>Score parser\<close>

text \<open>
  \<^verbatim>\<open>re.search(r"(\d+)\s*rep", text, re.IGNORECASE)\<close>, returning group 1 of the match.
  \<open>match_here\<close> tries the pattern at the start of the text: the digits (greedy), the
  whitespace (greedy), then the letters \<^verbatim>\<open>rep\<close> in either case. \<open>re_search\<close> tries each
  start position from the left. That this is the leftmost match of the pattern is
  lemma \<open>re_search_leftmost\<close> below.
\<close>

definition lower :: "char \<Rightarrow> char" where
  "lower c = (if 65 \<le> (of_char c :: nat) \<and> (of_char c :: nat) \<le> 90
              then char_of ((of_char c :: nat) + 32) else c)"

definition match_here :: "string \<Rightarrow> string option" where
  "match_here s =
     (let ds = takeWhile is_digit s;
          rest = dropWhile is_space (dropWhile is_digit s)
      in if ds \<noteq> [] \<and> map lower (take 3 rest) = ''rep'' then Some ds else None)"

fun re_search :: "string \<Rightarrow> string option" where
  "re_search [] = None"
| "re_search (c # cs) =
     (case match_here (c # cs) of Some ds \<Rightarrow> Some ds | None \<Rightarrow> re_search cs)"

text \<open>
  \<^verbatim>\<open>_parse_reps\<close>: the loop over \<^verbatim>\<open>(breakdown, score_display)\<close>. A text that is not a
  string and is truthy makes \<^verbatim>\<open>re.search\<close> raise TypeError.
\<close>

fun parse_reps_loop :: "json list \<Rightarrow> py_error + int option" where
  "parse_reps_loop [] = Inr None"
| "parse_reps_loop (text # texts) =
     (if \<not> truthy text then parse_reps_loop texts
      else case text of
             JStr s \<Rightarrow>
               (case re_search s of
                  Some ds \<Rightarrow> Inr (Some (int_of_digits ds))
                | None \<Rightarrow> parse_reps_loop texts)
           | _ \<Rightarrow> Inl TypeError)"

definition parse_reps :: "json \<Rightarrow> json \<Rightarrow> py_error + int option" where
  "parse_reps score_display breakdown = parse_reps_loop [breakdown, score_display]"

text \<open>An optional string as the JSON value the parser receives.\<close>

fun opt_str :: "string option \<Rightarrow> json" where
  "opt_str None = JNull"
| "opt_str (Some s) = JStr s"





section \<open>Percentile\<close>

text \<open>\<^verbatim>\<open>_percentile_from_rank\<close>: \<^verbatim>\<open>100.0 * (1.0 - (rank - 1) / total_competitors)\<close>.\<close>

definition percentile_from_rank :: "int \<Rightarrow> int \<Rightarrow> py_error + real" where
  "percentile_from_rank rank total_competitors =
     (if total_competitors = 0 then Inl ZeroDivisionError
      else Inr (100 * (1 - real_of_int (rank - 1) / real_of_int total_competitors)))"

section \<open>Page sampler\<close>

text \<open>
  \<^verbatim>\<open>math.ceil(a / b)\<close> for integers: the ceiling of the quotient (exact in Python for
  operands below \<open>2 ^ 53\<close>), ZeroDivisionError for \<open>b = 0\<close>.
\<close>

definition ceil_div :: "int \<Rightarrow> int \<Rightarrow> py_error + int" where
  "ceil_div a b = (if b = 0 then Inl ZeroDivisionError else Inr (- ((- a) div b)))"

text \<open>\<^verbatim>\<open>range(start, stop, step)\<close> for a positive step, the only one the sampler uses.\<close>

function py_range :: "int \<Rightarrow> int \<Rightarrow> int \<Rightarrow> int list" where
  "py_range start stop step =
     (if 0 < step \<and> start < stop then start # py_range (start + step) stop step else [])"
  by pat_completeness auto
termination
  by (relation "measure (\<lambda>(start, stop, step). nat (stop - start))") auto

declare py_range.simps [simp del]

definition bucket_mid :: "int \<Rightarrow> int \<Rightarrow> int \<Rightarrow> int" where
  "bucket_mid total_pages step start =
     (let end = min total_pages (start + step - 1) in (start + end) div 2)"

definition make_page_samples :: "int \<Rightarrow> int \<Rightarrow> py_error + int list" where
  "make_page_samples total_pages target_buckets =
     (if total_pages \<le> 0 then Inr [1]
      else case ceil_div total_pages target_buckets of
             Inl e \<Rightarrow> Inl e
           | Inr c \<Rightarrow>
               (let step = max 1 c;
                    pages = map (bucket_mid total_pages step) (py_range 1 (total_pages + 1) step)
                in Inr (sorted_list_of_set (set pages))))"

section \<open>Remote page client\<close>

text \<open>
  A query is the dict \<^verbatim>\<open>base_params\<close>; a request adds the optional \<^verbatim>\<open>page\<close>. The remote
  leaderboard is a parameter: \<open>remote n params page\<close> is the outcome of
  \<^verbatim>\<open>_get_json\<close> when \<open>n\<close> requests have been made before it in the same computation,
  either an exception (a transport or HTTP failure, a body that is not JSON) or the
  decoded document. \<open>get_json\<close> threads the number of requests made.
\<close>

record query =
  view :: string
  division :: string
  region :: string
  scaled :: string
  sort_param :: string

type_synonym remote = "nat \<Rightarrow> query \<Rightarrow> int option \<Rightarrow> py_error + json"

definition get_json :: "remote \<Rightarrow> query \<Rightarrow> int option \<Rightarrow> nat \<Rightarrow> py_error + (json \<times> nat)" where
  "get_json remote params page n =
     (case remote n params page of Inl e \<Rightarrow> Inl e | Inr j \<Rightarrow> Inr (j, Suc n))"

section \<open>Submission-boundary locator\<close>

text \<open>\<^verbatim>\<open>row.get("scores", [{}])[0].get("scoreDisplay")\<close>\<close>

definition row_score_display :: "json \<Rightarrow> py_error + json" where
  "row_score_display row =
     (case dict_get_default row ''scores'' (JList [JDict []]) of
        Inl e \<Rightarrow> Inl e
      | Inr scores \<Rightarrow>
          (case py_index0 scores of
             Inl e \<Rightarrow> Inl e
           | Inr first \<Rightarrow> dict_get first ''scoreDisplay''))"

text \<open>\<^verbatim>\<open>any(... for row in rows)\<close>: stops at the first truthy value.\<close>

fun any_score_display :: "json list \<Rightarrow> py_error + bool" where
  "any_score_display [] = Inr False"
| "any_score_display (row # rows) =
     (case row_score_display row of
        Inl e \<Rightarrow> Inl e
      | Inr v \<Rightarrow> if truthy v then Inr True else any_score_display rows)"

definition page_has_submissions :: "json \<Rightarrow> py_error + bool" where
  "page_has_submissions page_json =
     (case dict_get page_json ''leaderboardRows'' of
        Inl e \<Rightarrow> Inl e
      | Inr r \<Rightarrow>
          (case py_iter (py_or r (JList [])) of
             Inl e \<Rightarrow> Inl e
           | Inr rows \<Rightarrow> any_score_display rows))"

text \<open>
  The \<^verbatim>\<open>while lo < hi\<close> loop of \<^verbatim>\<open>_find_last_submission_page\<close>, on the state
  \<open>(lo, hi, last_json)\<close> and the number of requests made.
\<close>

function find_loop ::
  "remote \<Rightarrow> query \<Rightarrow> int \<Rightarrow> int \<Rightarrow> json \<Rightarrow> nat \<Rightarrow> py_error + (int \<times> json \<times> nat)" where
  "find_loop remote base_params lo hi last_json n =
     (if lo < hi then
        (let mid = (lo + hi + 1) div 2 in
         case get_json remote base_params (Some mid) n of
           Inl e \<Rightarrow> Inl e
         | Inr (page_json, n') \<Rightarrow>
             (case page_has_submissions page_json of
                Inl e \<Rightarrow> Inl e
              | Inr has \<Rightarrow>
                  if has then find_loop remote base_params mid hi page_json n'
                  else find_loop remote base_params lo (mid - 1) last_json n'))
      else Inr (lo, last_json, n))"
  by pat_completeness auto
termination
  by (relation "measure (\<lambda>(remote, base_params, lo, hi, last_json, n). nat (hi - lo))") auto

declare find_loop.simps [simp del]

definition find_last_submission_page ::
  "remote \<Rightarrow> query \<Rightarrow> int \<Rightarrow> nat \<Rightarrow> py_error + (int \<times> json \<times> nat)" where
  "find_last_submission_page remote base_params total_pages n =
     (case find_loop remote base_params 1 total_pages (JDict []) n of
        Inl e \<Rightarrow> Inl e
      | Inr (lo, last_json, n') \<Rightarrow>
          if \<not> truthy last_json then
            (case get_json remote base_params (Some lo) n' of
               Inl e \<Rightarrow> Inl e
             | Inr (page_json, n'') \<Rightarrow> Inr (lo, page_json, n''))
          else Inr (lo, last_json, n'))"


definition row_of_display :: "string option \<Rightarrow> json" where
  "row_of_display d = JDict [(''scores'', JList [JDict [(''scoreDisplay'', opt_str d)]])]"

definition page_of_displays :: "string option list \<Rightarrow> json" where
  "page_of_displays ds = JDict [(''leaderboardRows'', JList (map row_of_display ds))]"


section \<open>Curve builder\<close>

text \<open>
  \<^verbatim>\<open>int(row.get("overallRank") or 0)\<close> under \<^verbatim>\<open>try ... except ValueError\<close>: \<open>None\<close> is
  the handled ValueError, any other exception propagates.
\<close>

definition row_rank :: "json \<Rightarrow> py_error + int option" where
  "row_rank row =
     (case dict_get row ''overallRank'' of
        Inl e \<Rightarrow> Inl e
      | Inr r \<Rightarrow>
          (case py_int (py_or r (JInt 0)) of
             Inl e \<Rightarrow> if e = ValueError then Inr None else Inl e
           | Inr k \<Rightarrow> Inr (Some k)))"

fun max_rank_loop :: "json list \<Rightarrow> int \<Rightarrow> py_error + int" where
  "max_rank_loop [] max_rank = Inr max_rank"
| "max_rank_loop (row # rows) max_rank =
     (case row_score_display row of
        Inl e \<Rightarrow> Inl e
      | Inr v \<Rightarrow>
          if truthy v then
            (case row_rank row of
               Inl e \<Rightarrow> Inl e
             | Inr None \<Rightarrow> max_rank_loop rows max_rank
             | Inr (Some k) \<Rightarrow> max_rank_loop rows (max max_rank k))
          else max_rank_loop rows max_rank)"

definition max_submitted_rank :: "json \<Rightarrow> py_error + int" where
  "max_submitted_rank page_json =
     (case dict_get page_json ''leaderboardRows'' of
        Inl e \<Rightarrow> Inl e
      | Inr r \<Rightarrow>
          (case py_iter (py_or r (JList [])) of
             Inl e \<Rightarrow> Inl e
           | Inr rows \<Rightarrow> max_rank_loop rows 0))"

record point =
  rank :: int
  reps :: int
  percentile :: real

text \<open>
  The body of the \<^verbatim>\<open>for row in rows\<close> loop of \<^verbatim>\<open>_extract_points_from_page\<close>, on the
  state \<open>(points, submitted_rows, total_rows)\<close>; a \<^verbatim>\<open>continue\<close> returns the state as it
  is at that point.
\<close>

definition extract_row ::
  "int \<Rightarrow> int \<Rightarrow> json \<Rightarrow> point list \<times> int \<times> int \<Rightarrow> py_error + (point list \<times> int \<times> int)" where
  "extract_row total_submitted total_competitors row st =
     (case st of (points, submitted_rows, total_rows0) \<Rightarrow>
       (let total_rows = total_rows0 + 1 in
       (case row_rank row of
          Inl e \<Rightarrow> Inl e
        | Inr None \<Rightarrow> Inr (points, submitted_rows, total_rows)
        | Inr (Some rank_v) \<Rightarrow>
       (case dict_get row ''scores'' of
          Inl e \<Rightarrow> Inl e
        | Inr s \<Rightarrow>
       (let scores = py_or s (JList []) in
       (case (if truthy scores then py_index0 scores else Inr (JDict [])) of
          Inl e \<Rightarrow> Inl e
        | Inr first \<Rightarrow>
       (case dict_get first ''valid'' of
          Inl e \<Rightarrow> Inl e
        | Inr v \<Rightarrow>
       (let valid = str_is_1 (py_or v (JStr [])) in
       (case dict_get first ''scoreDisplay'' of
          Inl e \<Rightarrow> Inl e
        | Inr score_display \<Rightarrow>
       (case dict_get first ''breakdown'' of
          Inl e \<Rightarrow> Inl e
        | Inr breakdown \<Rightarrow>
       (case parse_reps score_display breakdown of
          Inl e \<Rightarrow> Inl e
        | Inr reps_v \<Rightarrow>
       (let submitted_rows' =
              (if valid \<and> reps_v \<noteq> None then submitted_rows + 1 else submitted_rows);
            pct_base = (if total_submitted \<noteq> 0 then total_submitted else total_competitors)
        in (case reps_v of
              None \<Rightarrow> Inr (points, submitted_rows', total_rows)
            | Some n \<Rightarrow>
                if rank_v \<le> 0 \<or> pct_base \<le> 0 then Inr (points, submitted_rows', total_rows)
                else (case percentile_from_rank rank_v pct_base of
                        Inl e \<Rightarrow> Inl e
                      | Inr pc \<Rightarrow>
                          Inr (points @ [\<lparr>rank = rank_v, reps = n, percentile = pc\<rparr>],
                               submitted_rows', total_rows)))))))))))))))"

fun extract_loop ::
  "int \<Rightarrow> int \<Rightarrow> json list \<Rightarrow> point list \<times> int \<times> int \<Rightarrow> py_error + (point list \<times> int \<times> int)" where
  "extract_loop total_submitted total_competitors [] st = Inr st"
| "extract_loop total_submitted total_competitors (row # rows) st =
     (case extract_row total_submitted total_competitors row st of
        Inl e \<Rightarrow> Inl e
      | Inr st' \<Rightarrow> extract_loop total_submitted total_competitors rows st')"

definition extract_points_from_page ::
  "json \<Rightarrow> int \<Rightarrow> int \<Rightarrow> py_error + (point list \<times> int \<times> int)" where
  "extract_points_from_page page_json fallback_total total_submitted =
     (case dict_get page_json ''pagination'' of
        Inl e \<Rightarrow> Inl e
      | Inr pg \<Rightarrow>
     (case dict_get (py_or pg (JDict [])) ''totalCompetitors'' of
        Inl e \<Rightarrow> Inl e
      | Inr tc \<Rightarrow>
     (case py_int (py_or tc (JInt 0)) of
        Inl e \<Rightarrow> Inl e
      | Inr c \<Rightarrow>
     (let total_competitors = (if c \<noteq> 0 then c else fallback_total) in
     (case dict_get page_json ''leaderboardRows'' of
        Inl e \<Rightarrow> Inl e
      | Inr r \<Rightarrow>
     (case py_iter (py_or r (JList [])) of
        Inl e \<Rightarrow> Inl e
      | Inr rows \<Rightarrow> extract_loop total_submitted total_competitors rows ([], 0, 0)))))))"

text \<open>
  Step 4 of \<^verbatim>\<open>api_curve\<close>: \<^verbatim>\<open>by_rank\<close> is a dict keyed by rank. It is modelled by the
  list of its items in insertion order (\<open>AList.update\<close> replaces the value of a key
  that is present in place and appends a new key), since \<^verbatim>\<open>list(by_rank.values())\<close>
  reads the values in that order.
\<close>

fun merge_loop :: "point list \<Rightarrow> (int \<times> point) list \<Rightarrow> (int \<times> point) list" where
  "merge_loop [] by_rank = by_rank"
| "merge_loop (pt # pts) by_rank =
     merge_loop pts
       (case map_of by_rank (rank pt) of
          None \<Rightarrow> AList.update (rank pt) pt by_rank
        | Some old \<Rightarrow>
            if reps pt > reps old then AList.update (rank pt) pt by_rank else by_rank)"

text \<open>
  The payload. \<^verbatim>\<open>meta\<close> echoes the query and adds the statistics;
  \<^verbatim>\<open>estimatedSubmissionRate\<close> is a number or \<^verbatim>\<open>None\<close>.
\<close>

record meta = query +
  year :: int
  competition :: string
  totalPages :: int
  totalCompetitors :: int
  lastSubmissionPage :: int
  totalSubmitted :: int
  sampledPages :: int
  sampledRows :: int
  sampledSubmittedRows :: int
  estimatedSubmissionRate :: "real option"
  note_text :: string

record payload =
  meta :: meta
  points :: "point list"

text \<open>
  Step 3 of \<^verbatim>\<open>api_curve\<close>: the loop \<^verbatim>\<open>for p in sample_pages\<close> on the state
  \<open>(all_points, submitted_rows, total_rows)\<close> and the number of requests made.
\<close>

fun sample_loop ::
  "remote \<Rightarrow> query \<Rightarrow> json \<Rightarrow> int \<Rightarrow> json \<Rightarrow> int \<Rightarrow> int \<Rightarrow> int list
     \<Rightarrow> point list \<times> int \<times> int \<times> nat \<Rightarrow> py_error + (point list \<times> int \<times> int \<times> nat)" where
  "sample_loop remote base_params first last_sub_page last_sub_json total_competitors
       total_submitted [] st = Inr st"
| "sample_loop remote base_params first last_sub_page last_sub_json total_competitors
       total_submitted (p # ps) st =
     (case st of (all_points, submitted_rows, total_rows, n) \<Rightarrow>
       (case (if p = 1 then Inr (first, n)
              else if p = last_sub_page then Inr (last_sub_json, n)
              else get_json remote base_params (Some p) n) of
          Inl e \<Rightarrow> Inl e
        | Inr (page_json, n') \<Rightarrow>
            (case extract_points_from_page page_json total_competitors total_submitted of
               Inl e \<Rightarrow> Inl e
             | Inr (pts, sub, tot) \<Rightarrow>
                 sample_loop remote base_params first last_sub_page last_sub_json
                   total_competitors total_submitted ps
                   (all_points @ pts, submitted_rows + sub, total_rows + tot, n'))))"

text \<open>
  \<^verbatim>\<open>api_curve\<close> from the first request to the payload (steps 1 to 4 and the
  assembly), without the cache.
\<close>

definition compute_curve :: "remote \<Rightarrow> query \<Rightarrow> int \<Rightarrow> py_error + payload" where
  "compute_curve remote base_params buckets =
     (case get_json remote base_params None 0 of
        Inl e \<Rightarrow> Inl e
      | Inr (first, n1) \<Rightarrow>
     (case dict_get first ''pagination'' of
        Inl e \<Rightarrow> Inl e
      | Inr pg \<Rightarrow>
     (let pagination = py_or pg (JDict []) in
     (case dict_get pagination ''totalPages'' of
        Inl e \<Rightarrow> Inl e
      | Inr tp \<Rightarrow>
     (case py_int (py_or tp (JInt 0)) of
        Inl e \<Rightarrow> Inl e
      | Inr total_pages \<Rightarrow>
     (case dict_get pagination ''totalCompetitors'' of
        Inl e \<Rightarrow> Inl e
      | Inr tc \<Rightarrow>
     (case py_int (py_or tc (JInt 0)) of
        Inl e \<Rightarrow> Inl e
      | Inr total_competitors \<Rightarrow>
     (case find_last_submission_page remote base_params total_pages n1 of
        Inl e \<Rightarrow> Inl e
      | Inr (last_sub_page, last_sub_json, n2) \<Rightarrow>
     (case max_submitted_rank last_sub_json of
        Inl e \<Rightarrow> Inl e
      | Inr total_submitted \<Rightarrow>
     (case make_page_samples last_sub_page buckets of
        Inl e \<Rightarrow> Inl e
      | Inr sample_pages0 \<Rightarrow>
     (let sample_pages =
            (if 1 \<notin> set sample_pages0 then sort (1 # sample_pages0) else sample_pages0) in
     (case sample_loop remote base_params first last_sub_page last_sub_json total_competitors
             total_submitted sample_pages ([], 0, 0, n2) of
        Inl e \<Rightarrow> Inl e
      | Inr (all_points, submitted_rows, total_rows, n3) \<Rightarrow>
     (let by_rank = merge_loop all_points [];
          pts = sort_key percentile (map snd by_rank);
          submission_rate =
            (if total_rows \<noteq> 0
             then Some (real_of_int submitted_rows / real_of_int total_rows) else None)
      in Inr \<lparr>meta =
                 \<lparr>view = view base_params, division = division base_params,
                  region = region base_params, scaled = scaled base_params,
                  sort_param = sort_param base_params,
                  year = 2026, competition = ''open'',
                  totalPages = total_pages, totalCompetitors = total_competitors,
                  lastSubmissionPage = last_sub_page, totalSubmitted = total_submitted,
                  sampledPages = int (length sample_pages), sampledRows = total_rows,
                  sampledSubmittedRows = submitted_rows,
                  estimatedSubmissionRate = submission_rate,
                  note_text = ''Submission rate is estimated from sampled pages (valid score rows / total rows sampled).''\<rparr>,
               points = pts\<rparr>)))))))))))))"

text \<open>
  The served operation. \<^verbatim>\<open>request.args\<close> is a map from names to strings, \<open>now\<close> is
  \<^verbatim>\<open>time.time()\<close>, and the module's \<^verbatim>\<open>_CACHE\<close> is passed in and returned. The cache key
  is \<^verbatim>\<open>_cache_key\<close> of the query with \<^verbatim>\<open>buckets\<close>: the items \<^verbatim>\<open>k=v\<close> in the sorted order
  of the keys, joined by \<^verbatim>\<open>&\<close>. An exception that leaves \<^verbatim>\<open>api_curve\<close> is the result
  \<open>Inl\<close>; the cache is then unchanged.
\<close>

definition CACHE_TTL_SECONDS :: real where
  "CACHE_TTL_SECONDS = 60"

definition cache_key :: "query \<Rightarrow> int \<Rightarrow> string" where
  "cache_key params buckets =
     ''buckets='' @ str_of_int buckets @ ''&division='' @ division params
       @ ''&region='' @ region params @ ''&scaled='' @ scaled params
       @ ''&sort='' @ sort_param params @ ''&view='' @ view params"

type_synonym cache = "string \<rightharpoonup> real \<times> payload"

definition args_get :: "(string \<rightharpoonup> string) \<Rightarrow> string \<Rightarrow> string \<Rightarrow> string" where
  "args_get args k d = (case args k of None \<Rightarrow> d | Some v \<Rightarrow> v)"

definition api_curve ::
  "remote \<Rightarrow> real \<Rightarrow> cache \<Rightarrow> (string \<rightharpoonup> string) \<Rightarrow> cache \<times> (py_error + payload)" where
  "api_curve remote now cache args =
     (case int_of_str (args_get args ''buckets'' ''20'') of
        Inl e \<Rightarrow> (cache, Inl e)
      | Inr buckets \<Rightarrow>
     (let base_params =
            \<lparr>view = args_get args ''view'' ''0'', division = args_get args ''division'' ''1'',
             region = args_get args ''region'' ''0'', scaled = args_get args ''scaled'' ''0'',
             sort_param = args_get args ''sort'' ''0''\<rparr>;
          ck = cache_key base_params buckets
      in (case (case cache ck of
                  None \<Rightarrow> None
                | Some (ts, cached) \<Rightarrow>
                    if now - ts < CACHE_TTL_SECONDS then Some cached else None) of
            Some cached \<Rightarrow> (cache, Inr cached)
          | None \<Rightarrow>
              (case compute_curve remote base_params buckets of
                 Inl e \<Rightarrow> (cache, Inl e)
               | Inr p \<Rightarrow> (cache(ck \<mapsto> (now, p)), Inr p)))))"

text \<open>
  The caches the program can hold: the empty one at start, and the cache after any
  call of \<^verbatim>\<open>api_curve\<close>, whatever the remote answers and whenever the call is made.
\<close>

inductive reachable :: "cache \<Rightarrow> bool" where
  start: "reachable Map.empty"
| call: "reachable c \<Longrightarrow> reachable (fst (api_curve remote now c args))"

section \<open>Sample leaderboards\<close>

text \<open>
  A remote with four pages of two rows each, used to run the operations on concrete
  input: the athletes of ranks 1 to 5 have a score, those of ranks 6 to 8 have none, so
  the boundary page is 3. \<open>sample_payload\<close> is the Curve \<^verbatim>\<open>api_curve\<close> returns for it with
  the default arguments, \<open>empty_payload\<close> the Curve for a remote that answers every
  request with an empty document.
\<close>

definition leaderboard_row :: "json \<Rightarrow> string option \<Rightarrow> string option \<Rightarrow> json" where
  "leaderboard_row r d b =
     JDict [(''overallRank'', r),
            (''scores'', JList [JDict [(''scoreDisplay'', opt_str d), (''breakdown'', opt_str b),
                                        (''valid'', JStr ''1'')]])]"

definition leaderboard_page :: "json \<Rightarrow> json list \<Rightarrow> json" where
  "leaderboard_page pagination rows =
     JDict [(''pagination'', pagination), (''leaderboardRows'', JList rows)]"

definition sample_remote :: "json \<Rightarrow> remote" where
  "sample_remote pagination n params page =
     (let p = (case page of None \<Rightarrow> 1 | Some p \<Rightarrow> p) in
      if p = 1 then
        Inr (leaderboard_page pagination
               [leaderboard_row (JStr ''1'') (Some ''11:16'') (Some ''354 reps''),
                leaderboard_row (JStr ''2'') (Some ''12:40'') (Some ''354 reps'')])
      else if p = 2 then
        Inr (leaderboard_page pagination
               [leaderboard_row (JStr ''3'') (Some ''221 reps'') None,
                leaderboard_row (JStr ''4'') (Some ''200 reps'') None])
      else if p = 3 then
        Inr (leaderboard_page pagination
               [leaderboard_row (JStr ''5'') (Some ''150 reps'') None,
                leaderboard_row (JStr ''6'') None None])
      else if p = 4 then
        Inr (leaderboard_page pagination
               [leaderboard_row (JStr ''7'') None None,
                leaderboard_row (JInt 8) None None])
      else Inl TransportError)"

definition sample_pagination :: json where
  "sample_pagination = JDict [(''totalPages'', JInt 4), (''totalCompetitors'', JInt 8)]"

definition sample_payload :: payload where
  "sample_payload =
     \<lparr>meta =
        \<lparr>view = ''0'', division = ''1'', region = ''0'', scaled = ''0'',
           sort_param = ''0'', year = 2026, competition = ''open'',
           totalPages = 4, totalCompetitors = 8, lastSubmissionPage = 3,
           totalSubmitted = 5, sampledPages = 3, sampledRows = 6,
           sampledSubmittedRows = 5, estimatedSubmissionRate = Some (5 / 6),
           note_text =
             ''Submission rate is estimated from sampled pages (valid score rows / total rows sampled).''\<rparr>,
        points =
          [\<lparr>rank = 5, reps = 150, percentile = 20\<rparr>,
           \<lparr>rank = 4, reps = 200, percentile = 40\<rparr>,
           \<lparr>rank = 3, reps = 221, percentile = 60\<rparr>,
           \<lparr>rank = 2, reps = 354, percentile = 80\<rparr>,
           \<lparr>rank = 1, reps = 354, percentile = 100\<rparr>]\<rparr>"

definition default_query :: query where
  "default_query = \<lparr>view = ''0'', division = ''1'', region = ''0'', scaled = ''0'', sort_param = ''0''\<rparr>"


section \<open>Properties of the percentile\<close>



section \<open>Properties of the page sampler\<close>









section \<open>Properties of the merge by rank\<close>

lemma merge_loop_snoc: "merge_loop (pts @ [pt]) acc =
   (let by_rank = merge_loop pts acc in
    case map_of by_rank (rank pt) of
          None \<Rightarrow> AList.update (rank pt) pt by_rank
        | Some old \<Rightarrow>
            if reps pt > reps old then AList.update (rank pt) pt by_rank else by_rank)"
  by (induction pts arbitrary: acc) (simp_all add: Let_def)

lemma map_of_merge_snoc:
  "map_of (merge_loop (pts @ [pt]) acc) r =
     (if r = rank pt then
        (case map_of (merge_loop pts acc) r of
           None \<Rightarrow> Some pt
         | Some old \<Rightarrow> if reps old < reps pt then Some pt else Some old)
      else map_of (merge_loop pts acc) r)"
  by (simp add: merge_loop_snoc Let_def update_conv' split: option.splits)

lemma merge_kept_member:
  "map_of (merge_loop pts []) r = Some p \<Longrightarrow> p \<in> set pts \<and> rank p = r"
  by (induction pts arbitrary: p rule: rev_induct)
     (auto simp: map_of_merge_snoc split: if_splits option.splits)

lemma merge_dom: "(map_of (merge_loop pts []) r = None) = (\<forall>q\<in>set pts. rank q \<noteq> r)"
  by (induction pts rule: rev_induct)
     (auto simp: map_of_merge_snoc split: if_splits option.splits)

lemma merge_kept_largest:
  "map_of (merge_loop pts []) r = Some p \<Longrightarrow> q \<in> set pts \<Longrightarrow> rank q = r \<Longrightarrow> reps q \<le> reps p"
proof (induction pts arbitrary: p rule: rev_induct)
  case Nil
  then show ?case by simp
next
  case (snoc pt pts)
  show ?case
  proof (cases "map_of (merge_loop pts []) r")
    case None
    then have "\<forall>q\<in>set pts. rank q \<noteq> r" by (simp add: merge_dom)
    with snoc.prems None show ?thesis
      by (auto simp: map_of_merge_snoc split: if_splits)
  next
    case (Some old)
    have old: "q \<in> set pts \<Longrightarrow> reps q \<le> reps old" using snoc.IH[OF Some _ snoc.prems(3)] by simp
    from snoc.prems Some old show ?thesis
      by (auto simp: map_of_merge_snoc split: if_splits)
  qed
qed

text \<open>
  Claim C5. Whenever two of the merged Points have the same rank, the merge keeps for
  that rank one of the Points of that rank, and its value is at least the value of
  both. For two Points of one rank with values 5 and 9 the merged result is the Point
  with value 9, in either order.
\<close>

theorem merge_keeps_larger:
  "(p \<in> set pts \<and> q \<in> set pts \<and> rank p = rank q \<longrightarrow>
      (\<exists>kept. map_of (merge_loop pts []) (rank p) = Some kept \<and> kept \<in> set pts
         \<and> rank kept = rank p \<and> reps p \<le> reps kept \<and> reps q \<le> reps kept))
   \<and> map snd (merge_loop [\<lparr>rank = r, reps = 5, percentile = x\<rparr>, \<lparr>rank = r, reps = 9, percentile = y\<rparr>] [])
        = [\<lparr>rank = r, reps = 9, percentile = y\<rparr>]
   \<and> map snd (merge_loop [\<lparr>rank = r, reps = 9, percentile = y\<rparr>, \<lparr>rank = r, reps = 5, percentile = x\<rparr>] [])
        = [\<lparr>rank = r, reps = 9, percentile = y\<rparr>]"
proof (intro conjI impI)
  assume a: "p \<in> set pts \<and> q \<in> set pts \<and> rank p = rank q"
  then have "map_of (merge_loop pts []) (rank p) \<noteq> None" by (auto simp: merge_dom)
  then obtain kept where k: "map_of (merge_loop pts []) (rank p) = Some kept" by auto
  from merge_kept_member[OF k] merge_kept_largest[OF k] a k
  show "\<exists>kept. map_of (merge_loop pts []) (rank p) = Some kept \<and> kept \<in> set pts
         \<and> rank kept = rank p \<and> reps p \<le> reps kept \<and> reps q \<le> reps kept"
    by auto
qed simp_all

theorem merge_keeps_larger_witness:
  "map_of (merge_loop [\<lparr>rank = 7, reps = 5, percentile = 40\<rparr>, \<lparr>rank = 3, reps = 8, percentile = 80\<rparr>,
                       \<lparr>rank = 7, reps = 9, percentile = 40\<rparr>] []) 7
     = Some \<lparr>rank = 7, reps = 9, percentile = 40\<rparr>"
  using merge_keeps_larger[of "\<lparr>rank = 7, reps = 5, percentile = 40\<rparr>"
      "[\<lparr>rank = 7, reps = 5, percentile = 40\<rparr>, \<lparr>rank = 3, reps = 8, percentile = 80\<rparr>,
                       \<lparr>rank = 7, reps = 9, percentile = 40\<rparr>]" "\<lparr>rank = 7, reps = 9, percentile = 40\<rparr>"]
  by simp




section \<open>Properties of the score parser\<close>





















section \<open>Properties of the boundary locator\<close>




text \<open>
  The presence check reads \<^verbatim>\<open>scores[0]\<close> of every row it visits: a row whose \<^verbatim>\<open>scores\<close>
  list is empty makes it raise, so such a page has no answer to "has submissions", and
  an oracle that serves one is not an oracle of \<open>submissions_up_to\<close>.
\<close>

lemma empty_scores_raises:
  "page_has_submissions (JDict [(''leaderboardRows'', JList [JDict [(''scores'', JList [])]])])
     = Inl IndexError"
  by (simp add: page_has_submissions_def dict_get_def py_or_def row_score_display_def)



lemma truthy_page_of_displays [simp]: "truthy (page_of_displays ds)"
  by (simp add: page_of_displays_def)





section \<open>Properties of the curve\<close>






lemma compute_curve_Inr:
  assumes "compute_curve remote q b = Inr p"
  shows "\<exists>first lsp lsj tc ts ps all_points submitted_rows total_rows n2 n3.
           sample_loop remote q first lsp lsj tc ts ps ([], 0, 0, n2)
             = Inr (all_points, submitted_rows, total_rows, n3)
           \<and> points p = sort_key percentile (map snd (merge_loop all_points []))
           \<and> sampledRows (meta p) = total_rows
           \<and> sampledSubmittedRows (meta p) = submitted_rows
           \<and> estimatedSubmissionRate (meta p) =
                (if total_rows \<noteq> 0
                 then Some (real_of_int submitted_rows / real_of_int total_rows) else None)"
  using assms unfolding compute_curve_def
  by (simp add: Let_def split: sum.splits prod.splits) fastforce

lemma merge_loop_keys:
  "distinct (map fst acc) \<Longrightarrow> \<forall>(k, p)\<in>set acc. rank p = k \<Longrightarrow>
     distinct (map fst (merge_loop pts acc)) \<and> (\<forall>(k, p)\<in>set (merge_loop pts acc). rank p = k)"
proof (induction pts arbitrary: acc)
  case Nil
  then show ?case by simp
next
  case (Cons pt pts)
  have d: "distinct (map fst (AList.update (rank pt) pt acc))"
    using Cons.prems(1) by (rule distinct_update)
  have "set (AList.update (rank pt) pt acc) \<subseteq> insert (rank pt, pt) (set acc)"
    by (induction acc) auto
  with Cons.prems(2) have k: "\<forall>(k, p)\<in>set (AList.update (rank pt) pt acc). rank p = k" by auto
  show ?case using Cons.IH[OF d k] Cons.IH[OF Cons.prems]
    by (simp split: option.splits)
qed

lemma distinct_map_sort_key: "distinct (map f (sort_key g xs)) = distinct (map f xs)"
  by (simp add: distinct_map)

lemma merged_points_ok:
  "distinct (map rank (sort_key percentile (map snd (merge_loop all_points []))))
   \<and> sorted (map percentile (sort_key percentile (map snd (merge_loop all_points []))))"
proof -
  let ?br = "merge_loop all_points []"
  from merge_loop_keys[of "[]" all_points]
  have d: "distinct (map fst ?br)" and k: "\<forall>(k, p)\<in>set ?br. rank p = k" by auto
  from k have eq: "map rank (map snd ?br) = map fst ?br" by (induction ?br) auto
  have "distinct (map rank (map snd ?br))" unfolding eq by (rule d)
  then have "distinct (map rank (sort_key percentile (map snd ?br)))"
    by (simp only: distinct_map_sort_key)
  then show ?thesis by (simp add: sorted_sort_key)
qed

lemma reachable_cached:
  assumes P: "\<And>remote q b p. compute_curve remote q b = Inr p \<Longrightarrow> P p"
  shows "reachable c \<Longrightarrow> c k = Some (ts, p) \<Longrightarrow> P p"
proof (induction arbitrary: k ts p rule: reachable.induct)
  case start
  then show ?case by simp
next
  case (call c remote now args)
  from call.prems call.IH P show ?case
    unfolding api_curve_def
    by (auto simp: Let_def split: sum.splits option.splits prod.splits if_splits)
qed

lemma api_curve_results:
  assumes P: "\<And>remote q b p. compute_curve remote q b = Inr p \<Longrightarrow> P p"
    and r: "reachable c" and a: "snd (api_curve remote now c args) = Inr p"
  shows "P p"
  using a reachable_cached[of P, OF P r] P unfolding api_curve_def
  by (auto simp: Let_def split: sum.splits option.splits prod.splits if_splits)

lemma sample_run: "snd (api_curve (sample_remote sample_pagination) 0 Map.empty Map.empty) = Inr sample_payload"
  by code_simp


lemma sample_expired:
  "snd (api_curve (\<lambda>n params page. Inl TransportError) 60
         (fst (api_curve (sample_remote sample_pagination) 0 Map.empty Map.empty)) Map.empty)
     = Inl TransportError"
  by code_simp


lemma sample_compute:
  "compute_curve (sample_remote sample_pagination) default_query 20 = Inr sample_payload"
  by code_simp

lemma sample_zero:
  "snd (api_curve (sample_remote sample_pagination) 0 Map.empty [''buckets'' \<mapsto> ''0''])
     = Inl ZeroDivisionError"
  by code_simp

text \<open>
  Claim C6. In every Curve payload the operation returns, computed or served from the
  cache, the ranks of the points are pairwise distinct and the points are in
  non-decreasing order of percentile.
\<close>

theorem curve_ranks_distinct_sorted:
  assumes "reachable c" and "snd (api_curve remote now c args) = Inr p"
  shows "distinct (map rank (points p)) \<and> sorted (map percentile (points p))"
proof (rule api_curve_results[OF _ assms])
  fix remote q b p
  assume "compute_curve remote q b = Inr p"
  from compute_curve_Inr[OF this] merged_points_ok
  show "distinct (map rank (points p)) \<and> sorted (map percentile (points p))" by auto
qed

theorem curve_ranks_distinct_sorted_witness:
  "reachable Map.empty
   \<and> snd (api_curve (sample_remote sample_pagination) 0 Map.empty Map.empty) = Inr sample_payload
   \<and> map rank (points sample_payload) = [5, 4, 3, 2, 1]
   \<and> map percentile (points sample_payload) = [20, 40, 60, 80, 100]
   \<and> distinct (map rank (points sample_payload))
   \<and> sorted (map percentile (points sample_payload))"
  using curve_ranks_distinct_sorted[OF reachable.start sample_run] sample_run reachable.start
  by (simp add: sample_payload_def)



section \<open>A bucket count of zero\<close>

lemma find_loop_lo:
  "find_loop remote q lo hi lj n = Inr (lo', lj', n') \<Longrightarrow> lo \<le> lo'"
proof (induction "nat (hi - lo)" arbitrary: lo hi lj n rule: less_induct)
  case less
  show ?case
  proof (cases "lo < hi")
    case False
    with less.prems show ?thesis by (simp add: find_loop.simps)
  next
    case True
    define mid where "mid = (lo + hi + 1) div 2"
    have mid: "lo < mid" "mid \<le> hi" using True by (simp_all add: mid_def)
    from less.prems True obtain j n1 where
      "find_loop remote q mid hi j n1 = Inr (lo', lj', n') \<or> find_loop remote q lo (mid - 1) lj n1 = Inr (lo', lj', n')"
      by (subst (asm) find_loop.simps) (auto simp: mid_def Let_def split: sum.splits prod.splits if_splits)
    then show ?thesis
    proof
      assume a: "find_loop remote q mid hi j n1 = Inr (lo', lj', n')"
      have "nat (hi - mid) < nat (hi - lo)" using mid by simp
      from less.hyps[OF this a] mid show ?thesis by simp
    next
      assume a: "find_loop remote q lo (mid - 1) lj n1 = Inr (lo', lj', n')"
      have "nat ((mid - 1) - lo) < nat (hi - lo)" using mid by simp
      from less.hyps[OF this a] show ?thesis .
    qed
  qed
qed

lemma find_last_submission_page_ge_1:
  "find_last_submission_page remote q total_pages n = Inr (bp, j, n') \<Longrightarrow> 1 \<le> bp"
  unfolding find_last_submission_page_def
  by (auto split: sum.splits prod.splits if_splits dest: find_loop_lo)

lemma make_page_samples_zero: "1 \<le> bp \<Longrightarrow> make_page_samples bp 0 = Inl ZeroDivisionError"
  by (simp add: make_page_samples_def ceil_div_def)

lemma compute_curve_prefix:
  assumes "compute_curve remote q b = Inr p"
  shows "\<exists>first n1 pg tp total_pages tc total_competitors lsp lsj n2 ts.
           get_json remote q None 0 = Inr (first, n1)
           \<and> dict_get first ''pagination'' = Inr pg
           \<and> dict_get (py_or pg (JDict [])) ''totalPages'' = Inr tp
           \<and> py_int (py_or tp (JInt 0)) = Inr total_pages
           \<and> dict_get (py_or pg (JDict [])) ''totalCompetitors'' = Inr tc
           \<and> py_int (py_or tc (JInt 0)) = Inr total_competitors
           \<and> find_last_submission_page remote q total_pages n1 = Inr (lsp, lsj, n2)
           \<and> max_submitted_rank lsj = Inr ts"
  using assms unfolding compute_curve_def
  by (simp add: Let_def split: sum.splits prod.splits)

lemma compute_curve_zero_division:
  assumes "compute_curve remote q b = Inr p"
  shows "compute_curve remote q 0 = Inl ZeroDivisionError"
proof -
  from compute_curve_prefix[OF assms]
  obtain first n1 pg tp total_pages tc total_competitors lsp lsj n2 ts where
    e: "get_json remote q None 0 = Inr (first, n1)"
      "dict_get first ''pagination'' = Inr pg"
      "dict_get (py_or pg (JDict [])) ''totalPages'' = Inr tp"
      "py_int (py_or tp (JInt 0)) = Inr total_pages"
      "dict_get (py_or pg (JDict [])) ''totalCompetitors'' = Inr tc"
      "py_int (py_or tc (JInt 0)) = Inr total_competitors"
      "find_last_submission_page remote q total_pages n1 = Inr (lsp, lsj, n2)"
      "max_submitted_rank lsj = Inr ts"
    by (elim exE conjE) (rule that)
  from find_last_submission_page_ge_1[OF e(7)] have "make_page_samples lsp 0 = Inl ZeroDivisionError"
    by (rule make_page_samples_zero)
  with e show ?thesis by (simp add: compute_curve_def Let_def)
qed

lemma compute_curve_zero: "\<exists>e. compute_curve remote q 0 = Inl e"
proof (cases "compute_curve remote q 0")
  case (Inl e)
  then show ?thesis by simp
next
  case (Inr p)
  from compute_curve_zero_division[OF Inr] Inr show ?thesis by simp
qed

lemma str_of_nat_head: "0 < n \<Longrightarrow> \<exists>c cs. str_of_nat n = c # cs \<and> c \<noteq> CHR ''0''"
proof (induction n rule: str_of_nat.induct)
  case (1 n)
  show ?case
  proof (cases "n < 10")
    case True
    have "(of_char (char_of (48 + n) :: char) :: nat) = 48 + n" using True by simp
    moreover have "(of_char (CHR ''0'') :: nat) = 48" by simp
    ultimately have "(char_of (48 + n) :: char) \<noteq> CHR ''0''" using "1.prems" by (metis add_cancel_right_right less_numeral_extra(3))
    with True show ?thesis by (subst str_of_nat.simps) simp
  next
    case False
    then have "0 < n div 10" by simp
    from "1.IH"[OF False this] obtain c cs where "str_of_nat (n div 10) = c # cs" "c \<noteq> CHR ''0''"
      by (elim exE conjE) (rule that)
    with False show ?thesis by (subst str_of_nat.simps) simp
  qed
qed

lemma str_of_int_head: "b \<noteq> 0 \<Longrightarrow> \<exists>c cs. str_of_int b = c # cs \<and> c \<noteq> CHR ''0''"
proof (cases "b < 0")
  case True
  then show ?thesis by (simp add: str_of_int_def)
next
  case False
  assume "b \<noteq> 0"
  with False have "0 < nat b" by simp
  from str_of_nat_head[OF this] False show ?thesis by (simp add: str_of_int_def)
qed

lemma cache_key_zero: "cache_key q b = cache_key q' 0 \<Longrightarrow> b = 0"
proof (rule ccontr)
  assume k: "cache_key q b = cache_key q' 0" and "b \<noteq> 0"
  from str_of_int_head[OF this(2)] obtain c cs where c: "str_of_int b = c # cs" "c \<noteq> CHR ''0''"
    by (elim exE conjE) (rule that)
  have z: "str_of_int 0 = ''0''" by code_simp
  from k show False unfolding cache_key_def c z using c(2) by simp
qed

lemma reachable_keys: "reachable c \<Longrightarrow> c k = Some e \<Longrightarrow> \<exists>q b. k = cache_key q b \<and> b \<noteq> 0"
proof (induction arbitrary: k e rule: reachable.induct)
  case start
  then show ?case by simp
next
  case (call c remote now args)
  show ?case
  proof (cases "c k")
    case (Some e')
    from call.IH[OF Some] show ?thesis .
  next
    case None
    with call.prems obtain q b p where "k = cache_key q b" "compute_curve remote q b = Inr p"
      unfolding api_curve_def
      by (auto simp: Let_def split: sum.splits option.splits prod.splits if_splits)
    moreover from this(2) compute_curve_zero[of remote q] have "b \<noteq> 0" by auto
    ultimately show ?thesis by auto
  qed
qed

lemma sample_boundary:
  "find_last_submission_page (sample_remote sample_pagination) default_query 4 1
     = Inr (3, leaderboard_page sample_pagination
                 [leaderboard_row (JStr ''5'') (Some ''150 reps'') None,
                  leaderboard_row (JStr ''6'') None None], 3)"
  by code_simp

text \<open>
  Claim C10. The operation has no guard on \<^verbatim>\<open>buckets\<close>. For a boundary page of at least
  \<open>1\<close>, and every located boundary page is, the sampler's step computation with
  \<open>0\<close> buckets raises ZeroDivisionError; so where the computation would return a Curve
  for some bucket count it raises ZeroDivisionError for \<open>0\<close>, and a request with
  \<^verbatim>\<open>buckets=0\<close> never returns a Curve (nor from the cache, which holds no entry for it)
  and leaves the cache as it is.
\<close>

theorem buckets_zero_fails:
  "(1 \<le> boundary_page \<longrightarrow> make_page_samples boundary_page 0 = Inl ZeroDivisionError)
   \<and> (find_last_submission_page remote q total_pages n = Inr (boundary_page, page_json, n') \<longrightarrow>
        1 \<le> boundary_page)
   \<and> (compute_curve remote q buckets = Inr p \<longrightarrow> compute_curve remote q 0 = Inl ZeroDivisionError)
   \<and> (reachable c \<and> int_of_str (args_get args ''buckets'' ''20'') = Inr 0 \<longrightarrow>
        (\<exists>e. api_curve remote now c args = (c, Inl e)))"
proof (intro conjI impI)
  assume a: "reachable c \<and> int_of_str (args_get args ''buckets'' ''20'') = Inr 0"
  let ?q = "\<lparr>view = args_get args ''view'' ''0'', division = args_get args ''division'' ''1'',
             region = args_get args ''region'' ''0'', scaled = args_get args ''scaled'' ''0'',
             sort_param = args_get args ''sort'' ''0''\<rparr>"
  have "c (cache_key ?q 0) = None"
  proof (cases "c (cache_key ?q 0)")
    case (Some e)
    from reachable_keys[OF conjunct1[OF a] Some] cache_key_zero show ?thesis by metis
  qed simp
  moreover from compute_curve_zero[of remote ?q] obtain e where "compute_curve remote ?q 0 = Inl e" ..
  ultimately show "\<exists>e. api_curve remote now c args = (c, Inl e)"
    using a by (simp add: api_curve_def Let_def)
qed (simp_all add: make_page_samples_zero find_last_submission_page_ge_1 compute_curve_zero_division)

theorem buckets_zero_fails_witness:
  "make_page_samples 3 0 = Inl ZeroDivisionError
   \<and> find_last_submission_page (sample_remote sample_pagination) default_query 4 1
       = Inr (3, leaderboard_page sample_pagination
                   [leaderboard_row (JStr ''5'') (Some ''150 reps'') None,
                    leaderboard_row (JStr ''6'') None None], 3)
   \<and> compute_curve (sample_remote sample_pagination) default_query 20 = Inr sample_payload
   \<and> compute_curve (sample_remote sample_pagination) default_query 0 = Inl ZeroDivisionError
   \<and> reachable Map.empty
   \<and> int_of_str (args_get [''buckets'' \<mapsto> ''0''] ''buckets'' ''20'') = Inr 0
   \<and> snd (api_curve (sample_remote sample_pagination) 0 Map.empty [''buckets'' \<mapsto> ''0''])
       = Inl ZeroDivisionError"
proof -
  have i: "int_of_str (args_get [''buckets'' \<mapsto> ''0''] ''buckets'' ''20'') = Inr 0" by code_simp
  from buckets_zero_fails[where boundary_page = 3 and remote = "sample_remote sample_pagination"
      and q = default_query and total_pages = 4 and n = 1 and n' = 3 and buckets = 20
      and p = sample_payload and c = Map.empty and args = "[''buckets'' \<mapsto> ''0'']" and now = 0
      and page_json = "leaderboard_page sample_pagination
                   [leaderboard_row (JStr ''5'') (Some ''150 reps'') None,
                    leaderboard_row (JStr ''6'') None None]"]
    sample_boundary sample_compute sample_zero reachable.start i
  show ?thesis by simp
qed

section \<open>Malformed pagination fields\<close>

lemma make_page_samples_one: "make_page_samples 1 b = Inr ps \<Longrightarrow> ps = [1]"
proof -
  assume a: "make_page_samples 1 b = Inr ps"
  then have b: "b \<noteq> 0" by (auto simp: make_page_samples_def ceil_div_def split: if_splits)
  define step where "step = max 1 (- ((- 1) div b))"
  have "py_range 1 2 step = [1]"
    by (subst py_range.simps, subst py_range.simps) (simp add: step_def)
  moreover have "bucket_mid 1 step 1 = 1" by (simp add: bucket_mid_def step_def)
  ultimately show ?thesis using a b
    by (simp add: make_page_samples_def ceil_div_def Let_def step_def)
qed

text \<open>
  A metadata response without \<^verbatim>\<open>totalPages\<close> (or with \<^verbatim>\<open>null\<close>): the field is read as
  zero, the boundary search returns page 1 and the sampler the single page 1.
\<close>

lemma absent_pagination_single_page:
  assumes "compute_curve remote q b = Inr p"
    and "remote 0 q None = Inr first"
    and "dict_get first ''pagination'' = Inr pagination"
    and "dict_get (py_or pagination (JDict [])) ''totalPages'' = Inr JNull"
  shows "totalPages (meta p) = 0 \<and> lastSubmissionPage (meta p) = 1 \<and> sampledPages (meta p) = 1"
proof -
  have g: "get_json remote q None 0 = Inr (first, Suc 0)" using assms(2) by (simp add: get_json_def)
  have f: "find_loop remote q 1 0 (JDict []) (Suc 0) = Inr (1, JDict [], Suc 0)"
    by (subst find_loop.simps) simp
  have i: "py_int (py_or JNull (JInt 0)) = Inr 0" by (simp add: py_or_def)
  from assms(1) show ?thesis
    unfolding compute_curve_def
    by (auto simp: g assms(3,4) i f find_last_submission_page_def Let_def
        split: sum.splits prod.splits dest!: make_page_samples_one)
qed

text \<open>
  Claim C8 says that a non-numeric \<^verbatim>\<open>totalPages\<close> or \<^verbatim>\<open>totalCompetitors\<close> is treated as
  zero. The code converts both with \<^verbatim>\<open>int(... or 0)\<close> outside any \<^verbatim>\<open>try\<close>: the operation
  raises ValueError for either field. Absent fields are read as zero, and the Curve is
  then computed from the single page 1.
\<close>

theorem pagination_non_numeric_raises:
  "snd (api_curve (sample_remote (JDict [(''totalPages'', JStr ''n/a''), (''totalCompetitors'', JInt 8)]))
         0 Map.empty Map.empty) = Inl ValueError
   \<and> snd (api_curve (sample_remote (JDict [(''totalPages'', JInt 4), (''totalCompetitors'', JStr ''n/a'')]))
         0 Map.empty Map.empty) = Inl ValueError
   \<and> map_sum id (\<lambda>p. (totalPages (meta p), totalCompetitors (meta p), lastSubmissionPage (meta p),
                       sampledPages (meta p)))
         (snd (api_curve (sample_remote (JDict [])) 0 Map.empty Map.empty)) = Inr (0, 0, 1, 1)"
  by code_simp

end
